theory Spec2Isabelle
  imports Main
begin

section \<open>Strings of Unicode code points\<close>

text \<open>
  A Python \<^verbatim>\<open>str\<close> is a sequence of Unicode code points. A code point is modelled
  as a natural number and a string as a list of them, so that \<^verbatim>\<open>len\<close>, indexing and
  \<^verbatim>\<open>list(word)\<close> count what Python counts. ASCII literals are written through
  \<open>ascii\<close>, Malayalam text by its code points.
\<close>

type_synonym uchar = nat
type_synonym ustr = "nat list"

definition ascii :: "string \<Rightarrow> ustr" where
  "ascii s = map of_char s"

text \<open>\<^verbatim>\<open>c.isascii()\<close>.\<close>

definition isascii :: "uchar \<Rightarrow> bool" where
  "isascii c = (c < 128)"

text \<open>
  \<^verbatim>\<open>str.isspace\<close> on one code point: the set that \<^verbatim>\<open>str.strip()\<close>,
  \<^verbatim>\<open>str.split()\<close> and the pattern \<^verbatim>\<open>\s\<close> use.
\<close>

definition isspace :: "uchar \<Rightarrow> bool" where
  "isspace c = ((0x09 \<le> c \<and> c \<le> 0x0D) \<or> (0x1C \<le> c \<and> c \<le> 0x20) \<or> c = 0x85 \<or> c = 0xA0
     \<or> c = 0x1680 \<or> (0x2000 \<le> c \<and> c \<le> 0x200A) \<or> c = 0x2028 \<or> c = 0x2029
     \<or> c = 0x202F \<or> c = 0x205F \<or> c = 0x3000)"

text \<open>\<^verbatim>\<open>s.strip()\<close>, \<^verbatim>\<open>s.rstrip(chars)\<close>, \<^verbatim>\<open>s.split()\<close>, \<^verbatim>\<open>sep.join(xs)\<close>.\<close>

definition strip :: "ustr \<Rightarrow> ustr" where
  "strip s = rev (dropWhile isspace (rev (dropWhile isspace s)))"

definition rstrip_chars :: "ustr \<Rightarrow> ustr \<Rightarrow> ustr" where
  "rstrip_chars cs s = rev (dropWhile (\<lambda>c. c \<in> set cs) (rev s))"

fun split_from :: "ustr \<Rightarrow> ustr \<Rightarrow> ustr list" where
  "split_from cur [] = (if cur = [] then [] else [cur])"
| "split_from cur (c # cs) =
     (if isspace c then (if cur = [] then split_from [] cs else cur # split_from [] cs)
      else split_from (cur @ [c]) cs)"

definition split_ws :: "ustr \<Rightarrow> ustr list" where
  "split_ws s = split_from [] s"

fun join :: "ustr \<Rightarrow> ustr list \<Rightarrow> ustr" where
  "join sep [] = []"
| "join sep [x] = x"
| "join sep (x # y # ys) = x @ sep @ join sep (y # ys)"

text \<open>
  \<^verbatim>\<open>str.title()\<close>: a cased character is upper-cased after an uncased one and
  lower-cased after a cased one. The model knows the ASCII letters as the cased
  characters; \<open>transliterate_word\<close> applies it to ASCII text only (lemma
  \<open>transliterate_word_loop_ascii\<close> below).
\<close>

definition is_lower :: "uchar \<Rightarrow> bool" where
  "is_lower c = (0x61 \<le> c \<and> c \<le> 0x7A)"

definition is_upper :: "uchar \<Rightarrow> bool" where
  "is_upper c = (0x41 \<le> c \<and> c \<le> 0x5A)"

definition to_upper :: "uchar \<Rightarrow> uchar" where
  "to_upper c = (if is_lower c then c - 32 else c)"

definition to_lower :: "uchar \<Rightarrow> uchar" where
  "to_lower c = (if is_upper c then c + 32 else c)"

fun title_from :: "bool \<Rightarrow> ustr \<Rightarrow> ustr" where
  "title_from prev [] = []"
| "title_from prev (c # cs) =
     (if is_lower c \<or> is_upper c
      then (if prev then to_lower c else to_upper c) # title_from True cs
      else c # title_from False cs)"

definition title :: "ustr \<Rightarrow> ustr" where
  "title s = title_from False s"

section \<open>Transliteration tables\<close>

text \<open>
  The dictionaries of \<^verbatim>\<open>extract_voters.py\<close>, in source order, as association
  lists; \<open>map_of\<close> is the lookup and \<open>map_of t k \<noteq> None\<close> the test \<^verbatim>\<open>k in t\<close>.
  \<open>SPECIALS\<close> lists the two joiners twice, as the source does.
\<close>

definition CONJUNCTS :: "(ustr \<times> ustr) list" where
  "CONJUNCTS = [
     ([0x0D15, 0x0D4D, 0x0D15], ascii ''kka''), ([0x0D15, 0x0D4D, 0x0D37], ascii ''ksha''),
     ([0x0D15, 0x0D4D, 0x0D24], ascii ''ktha''), ([0x0D19, 0x0D4D, 0x0D15], ascii ''nka''),
     ([0x0D19, 0x0D4D, 0x0D19], ascii ''nga''), ([0x0D1A, 0x0D4D, 0x0D1A], ascii ''ccha''),
     ([0x0D1E, 0x0D4D, 0x0D1A], ascii ''ncha''), ([0x0D1E, 0x0D4D, 0x0D1E], ascii ''nja''),
     ([0x0D1F, 0x0D4D, 0x0D1F], ascii ''tta''), ([0x0D23, 0x0D4D, 0x0D1F], ascii ''nda''),
     ([0x0D23, 0x0D4D, 0x0D23], ascii ''nna''), ([0x0D24, 0x0D4D, 0x0D24], ascii ''ttha''),
     ([0x0D28, 0x0D4D, 0x0D24], ascii ''ntha''), ([0x0D28, 0x0D4D, 0x0D28], ascii ''nna''),
     ([0x0D28, 0x0D4D, 0x0D26], ascii ''nda''), ([0x0D28, 0x0D4D, 0x0D27], ascii ''ndha''),
     ([0x0D28, 0x0D4D, 0x0D31], ascii ''nra''), ([0x0D2A, 0x0D4D, 0x0D2A], ascii ''ppa''),
     ([0x0D2E, 0x0D4D, 0x0D2A], ascii ''mba''), ([0x0D2E, 0x0D4D, 0x0D2E], ascii ''mma''),
     ([0x0D2F, 0x0D4D, 0x0D2F], ascii ''yya''), ([0x0D32, 0x0D4D, 0x0D32], ascii ''lla''),
     ([0x0D33, 0x0D4D, 0x0D33], ascii ''lla''), ([0x0D35, 0x0D4D, 0x0D35], ascii ''vva''),
     ([0x0D36, 0x0D4D, 0x0D36], ascii ''shsha''), ([0x0D38, 0x0D4D, 0x0D38], ascii ''ssa''),
     ([0x0D31, 0x0D4D, 0x0D31], ascii ''tta''), ([0x0D37, 0x0D4D, 0x0D1F], ascii ''shta''),
     ([0x0D37, 0x0D4D, 0x0D23], ascii ''shna''), ([0x0D38, 0x0D4D, 0x0D15], ascii ''ska''),
     ([0x0D38, 0x0D4D, 0x0D24], ascii ''stha''), ([0x0D38, 0x0D4D, 0x0D25], ascii ''stha''),
     ([0x0D38, 0x0D4D, 0x0D2E], ascii ''sma''), ([0x0D38, 0x0D4D, 0x0D28], ascii ''sna''),
     ([0x0D38, 0x0D4D, 0x0D2A], ascii ''spa''), ([0x0D38, 0x0D4D, 0x0D2B], ascii ''spha''),
     ([0x0D38, 0x0D4D, 0x0D30], ascii ''sra''), ([0x0D26, 0x0D4D, 0x0D26], ascii ''dda''),
     ([0x0D26, 0x0D4D, 0x0D27], ascii ''ddha''), ([0x0D26, 0x0D4D, 0x0D30], ascii ''dra''),
     ([0x0D2C, 0x0D4D, 0x0D2C], ascii ''bba''), ([0x0D2C, 0x0D4D, 0x0D26], ascii ''bda''),
     ([0x0D2C, 0x0D4D, 0x0D27], ascii ''bdha''), ([0x0D2C, 0x0D4D, 0x0D30], ascii ''bra''),
     ([0x0D1C, 0x0D4D, 0x0D1C], ascii ''jja''), ([0x0D1C, 0x0D4D, 0x0D1E], ascii ''gna''),
     ([0x0D17, 0x0D4D, 0x0D17], ascii ''gga''), ([0x0D17, 0x0D4D, 0x0D28], ascii ''gna''),
     ([0x0D17, 0x0D4D, 0x0D2E], ascii ''gma''), ([0x0D17, 0x0D4D, 0x0D30], ascii ''gra''),
     ([0x0D15, 0x0D4D, 0x0D30], ascii ''kra''), ([0x0D15, 0x0D4D, 0x0D32], ascii ''kla''),
     ([0x0D2A, 0x0D4D, 0x0D30], ascii ''pra''), ([0x0D2A, 0x0D4D, 0x0D32], ascii ''pla''),
     ([0x0D24, 0x0D4D, 0x0D30], ascii ''thra''), ([0x0D24, 0x0D4D, 0x0D2E], ascii ''thma''),
     ([0x0D2B, 0x0D4D, 0x0D30], ascii ''phra''), ([0x0D36, 0x0D4D, 0x0D30], ascii ''shra''),
     ([0x0D28, 0x0D4D, 0x0D26, 0x0D4D, 0x0D30], ascii ''ndra'')]"

definition CONSONANTS :: "(uchar \<times> ustr) list" where
  "CONSONANTS = [
     (0x0D15, ascii ''k''), (0x0D16, ascii ''kh''), (0x0D17, ascii ''g''), (0x0D18, ascii ''gh''),
     (0x0D19, ascii ''ng''), (0x0D1A, ascii ''ch''), (0x0D1B, ascii ''chh''), (0x0D1C, ascii ''j''),
     (0x0D1D, ascii ''jh''), (0x0D1E, ascii ''nj''), (0x0D1F, ascii ''t''), (0x0D20, ascii ''th''),
     (0x0D21, ascii ''d''), (0x0D22, ascii ''dh''), (0x0D23, ascii ''n''), (0x0D24, ascii ''th''),
     (0x0D25, ascii ''thh''), (0x0D26, ascii ''d''), (0x0D27, ascii ''dh''), (0x0D28, ascii ''n''),
     (0x0D2A, ascii ''p''), (0x0D2B, ascii ''ph''), (0x0D2C, ascii ''b''), (0x0D2D, ascii ''bh''),
     (0x0D2E, ascii ''m''), (0x0D2F, ascii ''y''), (0x0D30, ascii ''r''), (0x0D32, ascii ''l''),
     (0x0D35, ascii ''v''), (0x0D36, ascii ''sh''), (0x0D37, ascii ''sh''), (0x0D38, ascii ''s''),
     (0x0D39, ascii ''h''), (0x0D33, ascii ''l''), (0x0D34, ascii ''zh''), (0x0D31, ascii ''r'')]"

definition VOWELS :: "(uchar \<times> ustr) list" where
  "VOWELS = [
     (0x0D05, ascii ''a''), (0x0D06, ascii ''aa''), (0x0D07, ascii ''i''), (0x0D08, ascii ''ee''),
     (0x0D09, ascii ''u''), (0x0D0A, ascii ''oo''), (0x0D0B, ascii ''ri''), (0x0D0E, ascii ''e''),
     (0x0D0F, ascii ''e''), (0x0D10, ascii ''ai''), (0x0D12, ascii ''o''), (0x0D13, ascii ''o''),
     (0x0D14, ascii ''au'')]"

definition MATRAS :: "(uchar \<times> ustr) list" where
  "MATRAS = [
     (0x0D3E, ascii ''a''), (0x0D3F, ascii ''i''), (0x0D40, ascii ''ee''), (0x0D41, ascii ''u''),
     (0x0D42, ascii ''oo''), (0x0D43, ascii ''ri''), (0x0D46, ascii ''e''), (0x0D47, ascii ''e''),
     (0x0D48, ascii ''ai''), (0x0D4A, ascii ''o''), (0x0D4B, ascii ''o''), (0x0D4C, ascii ''au''),
     (0x0D57, ascii ''au'')]"

definition SPECIALS :: "(uchar \<times> ustr) list" where
  "SPECIALS = [
     (0x0D02, ascii ''m''), (0x0D03, ascii ''h''), (0x0D4D, ascii ''''), (0x0D7B, ascii ''n''),
     (0x0D7D, ascii ''l''), (0x0D7E, ascii ''l''), (0x0D7C, ascii ''r''), (0x0D7A, ascii ''n''),
     (0x0D7F, ascii ''k''), (0x200D, ascii ''''), (0x200C, ascii ''''), (0x200D, ascii ''''),
     (0x200C, ascii '''')]"

definition KNOWN_NAMES :: "(ustr \<times> ustr) list" where
  "KNOWN_NAMES = [
     ([0x0D05, 0x0D2C, 0x0D4D, 0x0D26, 0x0D41, 0x0D33, 0x0D4D, 0x0D33], ascii ''Abdulla''),
     ([0x0D05, 0x0D2C, 0x0D4D, 0x0D26, 0x0D41, 0x0D32, 0x0D4D, 0x200D], ascii ''Abdul''),
     ([0x0D2E, 0x0D41, 0x0D39, 0x0D2E, 0x0D4D, 0x0D2E, 0x0D26, 0x0D4D], ascii ''Muhammed''),
     ([0x0D2E, 0x0D41, 0x0D39, 0x0D2E, 0x0D4D, 0x0D2E, 0x0D26, 0x0D4D, 0x200C], ascii ''Muhammed''),
     ([0x0D2E, 0x0D41, 0x0D39, 0x0D2E, 0x0D4D, 0x0D2E, 0x0D46, 0x0D26, 0x0D4D], ascii ''Muhammed''),
     ([0x0D2B, 0x0D3E, 0x0D24, 0x0D4D, 0x0D24, 0x0D3F, 0x0D2E], ascii ''Fathima''),
     ([0x0D06, 0x0D2F, 0x0D3F, 0x0D36], ascii ''Ayisha''),
     ([0x0D39, 0x0D38, 0x0D7B], ascii ''Hasan''),
     ([0x0D39, 0x0D41, 0x0D38, 0x0D48, 0x0D7B], ascii ''Hussain''),
     ([0x0D07, 0x0D2C, 0x0D4D, 0x0D30, 0x0D3E, 0x0D39, 0x0D3F, 0x0D02], ascii ''Ibrahim''),
     ([0x0D15, 0x0D30, 0x0D40, 0x0D02], ascii ''Kareem''),
     ([0x0D05, 0x0D39, 0x0D2E, 0x0D4D, 0x0D2E, 0x0D26, 0x0D4D], ascii ''Ahmed''),
     ([0x0D05, 0x0D39, 0x0D2E, 0x0D4D, 0x0D2E, 0x0D26, 0x0D4D, 0x200C], ascii ''Ahmed''),
     ([0x0D05, 0x0D39, 0x0D2E, 0x0D4D, 0x0D2E, 0x0D46, 0x0D26, 0x0D4D], ascii ''Ahmed''),
     ([0x0D31, 0x0D39, 0x0D4D, 0x0D2E, 0x0D3E, 0x0D7B], ascii ''Rahman''),
     ([0x0D31, 0x0D39, 0x0D3F, 0x0D2E, 0x0D3E, 0x0D7B], ascii ''Rahman''),
     ([0x0D31, 0x0D39, 0x0D3F, 0x0D2E, 0x0D3E, 0x0D28, 0x0D4D, 0x200D], ascii ''Rahman''),
     ([0x0D28, 0x0D3E, 0x0D38, 0x0D7C], ascii ''Naser''),
     ([0x0D28, 0x0D3E, 0x0D38, 0x0D30, 0x0D4D, 0x200D], ascii ''Naser''),
     ([0x0D2C, 0x0D40, 0x0D30, 0x0D3E, 0x0D7B], ascii ''Beeran''),
     ([0x0D2C, 0x0D40, 0x0D30, 0x0D3E, 0x0D28, 0x0D4D, 0x200D], ascii ''Beeran''),
     ([0x0D09, 0x0D2E, 0x0D4D, 0x0D2E, 0x0D7C], ascii ''Ummar''),
     ([0x0D09, 0x0D2E, 0x0D4D, 0x0D2E, 0x0D30, 0x0D4D, 0x200D], ascii ''Ummar''),
     ([0x0D2E, 0x0D4A, 0x0D2F, 0x0D4D, 0x0D24, 0x0D40, 0x0D7B], ascii ''Moitheen''),
     ([0x0D2E, 0x0D4A, 0x0D2F, 0x0D4D, 0x0D24, 0x0D40, 0x0D28, 0x0D4D, 0x200D], ascii ''Moitheen''),
     ([0x0D05, 0x0D32, 0x0D3F], ascii ''Ali''), ([0x0D39, 0x0D38, 0x0D40, 0x0D28], ascii ''Haseena''),
     ([0x0D39, 0x0D38, 0x0D40, 0x0D28, 0x0D3E], ascii ''Haseena''),
     ([0x0D06, 0x0D2E, 0x0D3F, 0x0D28], ascii ''Amina''),
     ([0x0D38, 0x0D48, 0x0D28, 0x0D2C], ascii ''Sainaba''),
     ([0x0D16, 0x0D26, 0x0D40, 0x0D1C], ascii ''Khadija''),
     ([0x0D28, 0x0D42, 0x0D31, 0x0D41, 0x0D28, 0x0D4D, 0x0D28, 0x0D40, 0x0D38], ascii ''Noornisa''),
     ([0x0D30, 0x0D3E, 0x0D1C, 0x0D47, 0x0D37, 0x0D4D], ascii ''Rajesh''),
     ([0x0D30, 0x0D3E, 0x0D1C, 0x0D47, 0x0D37, 0x0D4D, 0x200C], ascii ''Rajesh''),
     ([0x0D32, 0x0D15, 0x0D4D, 0x0D37, 0x0D4D, 0x0D2E, 0x0D3F], ascii ''Lakshmi''),
     ([0x0D1C, 0x0D2F, 0x0D32, 0x0D15, 0x0D4D, 0x0D37, 0x0D4D, 0x0D2E, 0x0D3F], ascii ''Jayalakshmi''),
     ([0x0D17, 0x0D4B, 0x0D2A, 0x0D3F, 0x0D28, 0x0D3E, 0x0D25, 0x0D7B], ascii ''Gopinathan''),
     ([0x0D17, 0x0D4B, 0x0D2A, 0x0D3F, 0x0D28, 0x0D3E, 0x0D25, 0x0D28, 0x0D4D, 0x200D], ascii ''Gopinathan''),
     ([0x0D17, 0x0D4B, 0x0D2A, 0x0D3E, 0x0D32, 0x0D15, 0x0D43, 0x0D37, 0x0D4D, 0x0D23, 0x0D7B], ascii ''Gopalakrishnan''),
     ([0x0D15, 0x0D43, 0x0D37, 0x0D4D, 0x0D23, 0x0D7B], ascii ''Krishnan''),
     ([0x0D2C, 0x0D3E, 0x0D32, 0x0D15, 0x0D43, 0x0D37, 0x0D4D, 0x0D23, 0x0D7B], ascii ''Balakrishnan''),
     ([0x0D28, 0x0D3E, 0x0D30, 0x0D3E, 0x0D2F, 0x0D23, 0x0D7B], ascii ''Narayanan''),
     ([0x0D36, 0x0D19, 0x0D4D, 0x0D15, 0x0D30, 0x0D7B], ascii ''Shankaran''),
     ([0x0D35, 0x0D3F, 0x0D1C, 0x0D2F, 0x0D7B], ascii ''Vijayan''),
     ([0x0D26, 0x0D3F, 0x0D28, 0x0D47, 0x0D36, 0x0D7B], ascii ''Dineshan''),
     ([0x0D38, 0x0D41, 0x0D30, 0x0D47, 0x0D37, 0x0D4D], ascii ''Suresh''),
     ([0x0D2E, 0x0D28, 0x0D4B, 0x0D1C, 0x0D4D], ascii ''Manoj''),
     ([0x0D2A, 0x0D4D, 0x0D30, 0x0D26, 0x0D40, 0x0D2A, 0x0D4D], ascii ''Pradeep''),
     ([0x0D05, 0x0D28, 0x0D3F, 0x0D24], ascii ''Anitha''),
     ([0x0D36, 0x0D3E, 0x0D28, 0x0D4D, 0x0D24], ascii ''Shantha''),
     ([0x0D15, 0x0D2E, 0x0D32], ascii ''Kamala''), ([0x0D17, 0x0D40, 0x0D24], ascii ''Geetha''),
     ([0x0D36, 0x0D4D, 0x0D30, 0x0D40, 0x0D26, 0x0D47, 0x0D35, 0x0D3F], ascii ''Sreedevi''),
     ([0x0D38, 0x0D2B, 0x0D3F, 0x0D2F], ascii ''Safiya''),
     ([0x0D15, 0x0D41, 0x0D2E, 0x0D3E, 0x0D7C], ascii ''Kumar''),
     ([0x0D15, 0x0D41, 0x0D2E, 0x0D3E, 0x0D30, 0x0D4D, 0x200D], ascii ''Kumar''),
     ([0x0D15, 0x0D41, 0x0D2E, 0x0D3E, 0x0D30, 0x0D3F], ascii ''Kumari''),
     ([0x0D28, 0x0D3E, 0x0D2F, 0x0D7C], ascii ''Nair''),
     ([0x0D28, 0x0D3E, 0x0D2F, 0x0D30, 0x0D4D, 0x200D], ascii ''Nair''),
     ([0x0D2E, 0x0D47, 0x0D28, 0x0D4B, 0x0D7B], ascii ''Menon''),
     ([0x0D2E, 0x0D47, 0x0D28, 0x0D4B, 0x0D28, 0x0D4D, 0x200D], ascii ''Menon''),
     ([0x0D2A, 0x0D3F, 0x0D33, 0x0D4D, 0x0D33], ascii ''Pilla''),
     ([0x0D2A, 0x0D23, 0x0D3F, 0x0D15, 0x0D4D, 0x0D15, 0x0D7C], ascii ''Panikkar''),
     ([0x0D1C, 0x0D4B, 0x0D38, 0x0D4D], ascii ''Jose''),
     ([0x0D1C, 0x0D4B, 0x0D38, 0x0D4D, 0x200C], ascii ''Jose''),
     ([0x0D1C, 0x0D4B, 0x0D7C, 0x0D1C, 0x0D4D], ascii ''George''),
     ([0x0D24, 0x0D4B, 0x0D2E, 0x0D38, 0x0D4D], ascii ''Thomas''),
     ([0x0D2E, 0x0D3E, 0x0D24, 0x0D4D, 0x0D2F, 0x0D41], ascii ''Mathew''),
     ([0x0D1A, 0x0D28, 0x0D4D, 0x0D26, 0x0D4D, 0x0D30, 0x0D7B], ascii ''Chandran''),
     ([0x0D30, 0x0D2E, 0x0D47, 0x0D36, 0x0D4D], ascii ''Ramesh''),
     ([0x0D2C, 0x0D37, 0x0D40, 0x0D7C], ascii ''Basheer''),
     ([0x0D2C, 0x0D37, 0x0D3F, 0x0D30, 0x0D4D, 0x200D], ascii ''Basheer''),
     ([0x0D37, 0x0D3E, 0x0D1C, 0x0D3F], ascii ''Shaji''), ([0x0D38, 0x0D1C, 0x0D3F], ascii ''Saji''),
     ([0x0D35, 0x0D3F, 0x0D28, 0x0D4B, 0x0D26, 0x0D4D], ascii ''Vinod''),
     ([0x0D05, 0x0D28, 0x0D40, 0x0D38, 0x0D4D], ascii ''Anees''),
     ([0x0D38, 0x0D28, 0x0D4D, 0x0D24, 0x0D4B, 0x0D37, 0x0D4D], ascii ''Santhosh''),
     ([0x0D17, 0x0D23, 0x0D47, 0x0D37, 0x0D4D], ascii ''Ganesh''),
     ([0x0D17, 0x0D23, 0x0D47, 0x0D37, 0x0D4D, 0x200C], ascii ''Ganesh''),
     ([0x0D17, 0x0D23, 0x0D47, 0x0D36, 0x0D4D], ascii ''Ganesh''),
     ([0x0D2C, 0x0D3E, 0x0D2C, 0x0D41], ascii ''Babu''),
     ([0x0D2E, 0x0D4B, 0x0D39, 0x0D7B], ascii ''Mohan''),
     ([0x0D2E, 0x0D4B, 0x0D39, 0x0D28, 0x0D4D, 0x200D], ascii ''Mohan''),
     ([0x0D26, 0x0D47, 0x0D35, 0x0D3F], ascii ''Devi''),
     ([0x0D2C, 0x0D40, 0x0D35, 0x0D3F], ascii ''Beevi''),
     ([0x0D37, 0x0D3F, 0x0D39, 0x0D3E, 0x0D2C, 0x0D4D], ascii ''Shihab''),
     ([0x0D37, 0x0D3F, 0x0D39, 0x0D3E, 0x0D2C, 0x0D4D, 0x200C], ascii ''Shihab''),
     ([0x0D05, 0x0D38, 0x0D4D, 0x0D2E], ascii ''Asma''),
     ([0x0D06, 0x0D37, 0x0D3F, 0x0D31], ascii ''Ashira''),
     ([0x0D36, 0x0D4B, 0x0D2D, 0x0D3F], ascii ''Shobhi''), ([0x0D0E, 0x0D7D, 0x0D38], ascii ''Elsa''),
     ([0x0D0E, 0x0D32, 0x0D4D, 0x200D, 0x0D38], ascii ''Elsa''),
     ([0x0D0E, 0x0D32, 0x0D4D, 0x200D, 0x0D38, 0x0D3E], ascii ''Elsa''),
     ([0x0D06, 0x0D36], ascii ''Asha''), ([0x0D28, 0x0D38, 0x0D40, 0x0D7C], ascii ''Naseer''),
     ([0x0D28, 0x0D38, 0x0D40, 0x0D30, 0x0D4D, 0x200D], ascii ''Naseer''),
     ([0x0D2E, 0x0D7B, 0x0D38, 0x0D42, 0x0D7C], ascii ''Mansoor''),
     ([0x0D2E, 0x0D28, 0x0D4D, 0x200D, 0x0D38, 0x0D42, 0x0D30, 0x0D4D, 0x200D], ascii ''Mansoor''),
     ([0x0D36, 0x0D02, 0x0D38, 0x0D41, 0x0D26, 0x0D4D, 0x0D26, 0x0D40, 0x0D7B], ascii ''Shamsudeen''),
     ([0x0D36, 0x0D02, 0x0D38, 0x0D41, 0x0D26, 0x0D4D, 0x0D27, 0x0D40, 0x0D28, 0x0D4D, 0x200D], ascii ''Shamsudeen''),
     ([0x0D05, 0x0D2C, 0x0D42, 0x0D2C, 0x0D15, 0x0D4D, 0x0D15, 0x0D7C], ascii ''Abubakar''),
     ([0x0D05, 0x0D2C, 0x0D42, 0x0D2C, 0x0D15, 0x0D4D, 0x0D15, 0x0D30, 0x0D4D, 0x200D], ascii ''Abubakar''),
     ([0x0D05, 0x0D2C, 0x0D4D, 0x0D26, 0x0D41, 0x0D31, 0x0D39, 0x0D40, 0x0D02], ascii ''Abdurraheem''),
     ([0x0D38, 0x0D24, 0x0D4D, 0x0D2F, 0x0D7B], ascii ''Sathyan''),
     ([0x0D38, 0x0D24, 0x0D4D, 0x0D2F, 0x0D28, 0x0D4D, 0x200D], ascii ''Sathyan''),
     ([0x0D28, 0x0D2C, 0x0D40, 0x0D7D], ascii ''Nabeel''),
     ([0x0D28, 0x0D2C, 0x0D3F, 0x0D32, 0x0D4D, 0x200D], ascii ''Nabeel''),
     ([0x0D39, 0x0D3E, 0x0D1C, 0x0D31], ascii ''Hajara''),
     ([0x0D1C, 0x0D4B, 0x0D2C, 0x0D3F, 0x0D7B], ascii ''Jobin''),
     ([0x0D1C, 0x0D4B, 0x0D2C, 0x0D3F, 0x0D28, 0x0D4D, 0x200D], ascii ''Jobin''),
     ([0x0D2A, 0x0D4D, 0x0D30, 0x0D26, 0x0D40, 0x0D37, 0x0D4D], ascii ''Pradeesh''),
     ([0x0D2E, 0x0D1E, 0x0D4D, 0x0D1C, 0x0D41, 0x0D33], ascii ''Manjula''),
     ([0x0D2E, 0x0D41, 0x0D1C, 0x0D40, 0x0D2C, 0x0D4D], ascii ''Mujeeb''),
     ([0x0D2E, 0x0D41, 0x0D1C, 0x0D40, 0x0D2C, 0x0D4D, 0x200C], ascii ''Mujeeb''),
     ([0x0D37, 0x0D42, 0x0D39, 0x0D48, 0x0D2C, 0x0D4D], ascii ''Shuhaib''),
     ([0x0D37, 0x0D42, 0x0D39, 0x0D48, 0x0D2C, 0x0D4D, 0x200C], ascii ''Shuhaib''),
     ([0x0D36, 0x0D3E, 0x0D30, 0x0D3F, 0x0D15, 0x0D4D], ascii ''Sharik''),
     ([0x0D36, 0x0D3E, 0x0D30, 0x0D3F, 0x0D15, 0x0D4D, 0x200C], ascii ''Sharik''),
     ([0x0D2E, 0x0D41, 0x0D39, 0x0D28, 0x0D4D, 0x0D28, 0x0D26, 0x0D4D], ascii ''Muhanned''),
     ([0x0D2E, 0x0D4A, 0x0D38, 0x0D4D, 0x0D24, 0x0D40, 0x0D7B], ascii ''Mostheen''),
     ([0x0D2E, 0x0D4A, 0x0D38, 0x0D4D, 0x0D24, 0x0D40, 0x0D28, 0x0D4D, 0x200D], ascii ''Mostheen''),
     ([0x0D05, 0x0D37, 0x0D31, 0x0D2B, 0x0D4D], ascii ''Ashraf''),
     ([0x0D05, 0x0D37, 0x0D31, 0x0D2B, 0x0D4D, 0x200C], ascii ''Ashraf''),
     ([0x0D17, 0x0D2B, 0x0D42, 0x0D7C], ascii ''Ghafoor''),
     ([0x0D17, 0x0D2B, 0x0D42, 0x0D30, 0x0D4D, 0x200D], ascii ''Ghafoor''),
     ([0x0D15, 0x0D41, 0x0D1E, 0x0D4D, 0x0D1E, 0x0D3E, 0x0D32, 0x0D3F], ascii ''Kunjali''),
     ([0x0D15, 0x0D42, 0x0D1E, 0x0D4D, 0x0D1E, 0x0D3E, 0x0D32, 0x0D3F], ascii ''Kunjali''),
     ([0x0D28, 0x0D3E, 0x0D38, 0x0D3F, 0x0D31, 0x0D41, 0x0D26, 0x0D4D, 0x0D26, 0x0D40, 0x0D7B], ascii ''Nasirudeen''),
     ([0x0D28, 0x0D3E, 0x0D38, 0x0D3F, 0x0D31, 0x0D41, 0x0D26, 0x0D4D, 0x0D26, 0x0D40, 0x0D28, 0x0D4D, 0x200D], ascii ''Nasirudeen''),
     ([0x0D09, 0x0D23, 0x0D4D, 0x0D23, 0x0D3F, 0x0D2E, 0x0D4B, 0x0D2F, 0x0D3F, 0x0D7B], ascii ''Unnimoyin''),
     ([0x0D09, 0x0D23, 0x0D4D, 0x0D23, 0x0D3F, 0x0D2E, 0x0D4B, 0x0D2F, 0x0D3F, 0x0D28, 0x0D4D, 0x200D], ascii ''Unnimoyin''),
     ([0x0D38, 0x0D48, 0x0D26, 0x0D32, 0x0D35, 0x0D3F], ascii ''Saidalavi'')]"

definition VIRAMA :: uchar where
  "VIRAMA = 0x0D4D"

definition ZWJ :: uchar where
  "ZWJ = 0x200D"

definition ZWNJ :: uchar where
  "ZWNJ = 0x200C"

section \<open>The transliterator\<close>

definition is_malayalam :: "uchar \<Rightarrow> bool" where
  "is_malayalam c = (0x0D00 \<le> c \<and> c \<le> 0x0D7F)"

text \<open>
  One iteration of the \<^verbatim>\<open>while i < n\<close> loop of \<^verbatim>\<open>transliterate_word\<close> at
  cursor \<open>i < n\<close>: the number of characters the cursor advances by and the segments
  appended to \<^verbatim>\<open>result\<close>, branch by branch in the order of the source. Every index
  read is guarded as in the source.
\<close>

definition word_step :: "ustr \<Rightarrow> nat \<Rightarrow> nat \<times> ustr list" where
  "word_step chars i =
     (let n = length chars; c = chars ! i in
      if \<not> is_malayalam c \<and> map_of SPECIALS c = None
      then (1, if isascii c then [[c]] else [])
      else case map_of SPECIALS c of
        Some sv \<Rightarrow> (1, [sv])
      | None \<Rightarrow>
      (case map_of VOWELS c of
        Some vv \<Rightarrow> (1, [vv])
      | None \<Rightarrow>
      (case map_of MATRAS c of
        Some mv \<Rightarrow> (1, [mv])
      | None \<Rightarrow>
      (case map_of CONSONANTS c of
        None \<Rightarrow> (1, [])
      | Some cv \<Rightarrow>
          if i + 2 < n \<and> chars ! (i + 1) = VIRAMA
          then (case map_of CONJUNCTS [c, VIRAMA, chars ! (i + 2)] of
              Some cj \<Rightarrow>
                (case (if i + 3 < n then map_of MATRAS (chars ! (i + 3)) else None) of
                  Some mv \<Rightarrow> (4, [cj @ mv])
                | None \<Rightarrow>
                    (3, if i + 3 < n \<and> chars ! (i + 3) \<noteq> VIRAMA
                        then [cj, ascii ''a''] else [cj]))
            | None \<Rightarrow> (2, [cv]))
          else (case (if i + 1 < n then map_of MATRAS (chars ! (i + 1)) else None) of
              Some mv \<Rightarrow> (2, [cv @ mv])
            | None \<Rightarrow>
                (1, if i + 1 < n \<and> chars ! (i + 1) \<noteq> VIRAMA
                    then [cv, ascii ''a''] else [cv]))))))"

text \<open>
  The loop itself, with the cursor \<open>i\<close> and the list \<open>result\<close> of emitted segments
  as arguments. The cursor advances by at least one in every iteration; \<open>max 1\<close>
  states that for the termination proof and changes nothing, as \<open>word_step_advance\<close>
  shows.
\<close>

function transliterate_word_loop :: "ustr \<Rightarrow> nat \<Rightarrow> ustr list \<Rightarrow> ustr list" where
  "transliterate_word_loop chars i result =
     (if i < length chars
      then transliterate_word_loop chars (i + max 1 (fst (word_step chars i)))
             (result @ snd (word_step chars i))
      else result)"
  by pat_completeness auto
termination
  by (relation "measure (\<lambda>(chars, i, result). length chars - i)") auto

declare transliterate_word_loop.simps [simp del]

definition transliterate_word :: "ustr \<Rightarrow> ustr" where
  "transliterate_word word =
     (let transliterated = concat (transliterate_word_loop word 0 [])
      in if transliterated \<noteq> [] then title transliterated else word)"

text \<open>
  The scan of \<^verbatim>\<open>KNOWN_NAMES.items()\<close> for one word: the first entry, in table order,
  that equals the word or agrees with it once trailing virama and joiners are stripped
  from both.
\<close>

definition known_name :: "ustr \<Rightarrow> ustr option" where
  "known_name clean_word =
     map_option snd
       (find (\<lambda>(known_ml, known_en).
                clean_word = known_ml \<or>
                rstrip_chars [VIRAMA, ZWNJ, ZWJ] clean_word = rstrip_chars [VIRAMA, ZWNJ, ZWJ] known_ml)
             KNOWN_NAMES)"

fun result_words :: "ustr list \<Rightarrow> ustr list" where
  "result_words [] = []"
| "result_words (word # words) =
     (let clean_word = strip word in
      if clean_word = [] then result_words words
      else case known_name clean_word of
          Some known_en \<Rightarrow> known_en # result_words words
        | None \<Rightarrow> transliterate_word clean_word # result_words words)"

definition remove_joiners :: "ustr \<Rightarrow> ustr" where
  "remove_joiners text =
     filter (\<lambda>c. c \<noteq> ZWNJ) (filter (\<lambda>c. c \<noteq> ZWJ)
       (filter (\<lambda>c. c \<noteq> ZWNJ) (filter (\<lambda>c. c \<noteq> ZWJ) text)))"

definition transliterate_to_english :: "ustr \<Rightarrow> ustr" where
  "transliterate_to_english text =
     (if text = [] \<or> strip text = [] then []
      else let text1 = remove_joiners (strip text) in
        if list_all (\<lambda>c. isascii c \<or> c \<in> set (ascii '' /-.'')) text1 then text1
        else join (ascii '' '') (result_words (split_ws text1)))"

text \<open>A word as \<^verbatim>\<open>split()\<close> yields it: not empty and free of whitespace.\<close>

definition tidy :: "ustr \<Rightarrow> bool" where
  "tidy w = (w \<noteq> [] \<and> list_all (\<lambda>c. \<not> isspace c) w)"

section \<open>Properties of the transliterator\<close>

lemmas translit_tables = CONJUNCTS_def CONSONANTS_def VOWELS_def MATRAS_def SPECIALS_def

lemmas translit_eval = transliterate_word_def transliterate_word_loop.simps word_step_def
  translit_tables
  is_malayalam_def isascii_def VIRAMA_def ZWJ_def ZWNJ_def title_def is_lower_def is_upper_def
  to_upper_def to_lower_def ascii_def

subsection \<open>Conjunct followed by a vowel sign\<close>

text \<open>
  Claim C1. When a conjunct of the table is followed by a dependent vowel sign, the claim
  has the sign's sound replace the inherent \<open>a\<close> of the conjunct's mapping. The code
  appends the sign's sound to the whole table value, which ends in \<open>a\<close>: the word
  KA, VIRAMA, KA, VOWEL SIGN I is rendered \<open>Kkai\<close>, where the claim says \<open>Kki\<close>. The
  single-consonant path does replace the inherent vowel: KA, VOWEL SIGN I gives \<open>Ki\<close>.
\<close>

theorem conjunct_matra_keeps_inherent_a:
  "map_of CONJUNCTS [0x0D15, 0x0D4D, 0x0D15] = Some (ascii ''kka'')
   \<and> map_of MATRAS 0x0D3F = Some (ascii ''i'')
   \<and> transliterate_word [0x0D15, 0x0D4D, 0x0D15, 0x0D3F] = ascii ''Kkai''
   \<and> transliterate_word [0x0D15, 0x0D3F] = ascii ''Ki''"
  by (simp add: translit_eval)

subsection \<open>Longest conjunct\<close>

text \<open>
  Claim C2. The table holds one key of five code points, NA VIRAMA DA VIRAMA RA, mapped to
  \<open>ndra\<close>. The scan only ever looks up keys of three code points, so the entry is never
  found: the word made of that key is rendered \<open>Ndar\<close> (the conjunct \<open>nda\<close>, a
  silent virama, and a final \<open>r\<close>), not the table's \<open>ndra\<close>.
\<close>

theorem long_conjunct_never_matched:
  "map_of CONJUNCTS [0x0D28, 0x0D4D, 0x0D26, 0x0D4D, 0x0D30] = Some (ascii ''ndra'')
   \<and> transliterate_word [0x0D28, 0x0D4D, 0x0D26, 0x0D4D, 0x0D30] = ascii ''Ndar''"
  by (simp add: translit_eval)

subsection \<open>Known names\<close>

text \<open>
  Claim C3. Every key of \<open>KNOWN_NAMES\<close> should be rendered as its table value. The
  joiners are removed from the text before the table is searched but not from the keys,
  so a key with a joiner inside it can only be reached through the character scan. For
  the key E, LA, VIRAMA, ZWJ, SA (table value \<open>Elsa\<close>) the scan gives \<open>Els\<close>.
\<close>

theorem known_name_with_inner_joiner_missed:
  "map_of KNOWN_NAMES [0x0D0E, 0x0D32, 0x0D4D, 0x200D, 0x0D38] = Some (ascii ''Elsa'')
   \<and> transliterate_to_english [0x0D0E, 0x0D32, 0x0D4D, 0x200D, 0x0D38] = ascii ''Els''"
  by (simp add: translit_eval transliterate_to_english_def strip_def isspace_def
      remove_joiners_def split_ws_def known_name_def rstrip_chars_def KNOWN_NAMES_def)

subsection \<open>Stripping and the ASCII fast path\<close>

lemma last_dropWhile_ne: "dropWhile P xs \<noteq> [] \<Longrightarrow> last (dropWhile P xs) = last xs"
  by (induction xs) (auto split: if_splits)

lemma strip_ends: "strip s = [] \<or> (\<not> isspace (hd (strip s)) \<and> \<not> isspace (last (strip s)))"
proof (cases "strip s = []")
  case True
  then show ?thesis by simp
next
  case False
  define t where "t = dropWhile isspace s"
  define u where "u = dropWhile isspace (rev t)"
  have s: "strip s = rev u" by (simp add: strip_def t_def u_def)
  with False have u: "u \<noteq> []" by simp
  then have "\<not> isspace (hd u)" unfolding u_def by (rule hd_dropWhile)
  then have l: "\<not> isspace (last (strip s))" using u by (simp add: s last_rev)
  from u have "last u = last (rev t)" unfolding u_def by (rule last_dropWhile_ne)
  moreover from u have t: "t \<noteq> []" by (auto simp: u_def)
  ultimately have "last u = hd t" by (simp add: last_rev)
  moreover from t have "\<not> isspace (hd t)" unfolding t_def by (rule hd_dropWhile)
  ultimately have "\<not> isspace (hd (strip s))" using u by (simp add: s hd_rev)
  with l show ?thesis by simp
qed

lemma strip_fixed: "t = [] \<or> (\<not> isspace (hd t) \<and> \<not> isspace (last t)) \<Longrightarrow> strip t = t"
proof (cases t)
  case Nil
  then show ?thesis by (simp add: strip_def)
next
  case (Cons a as)
  assume "t = [] \<or> (\<not> isspace (hd t) \<and> \<not> isspace (last t))"
  with Cons have h: "\<not> isspace (hd t)" and l: "\<not> isspace (last t)" by auto
  from h Cons have 1: "dropWhile isspace t = t" by simp
  from Cons have tne: "t \<noteq> []" by simp
  then have "rev t \<noteq> []" by simp
  moreover from l tne have "\<not> isspace (hd (rev t))" by (simp add: hd_rev)
  ultimately have "dropWhile isspace (rev t) = rev t" by (cases "rev t") auto
  with 1 show ?thesis by (simp add: strip_def)
qed

lemma strip_idem: "strip (strip s) = strip s"
  by (rule strip_fixed) (rule strip_ends)

lemma set_strip: "set (strip s) \<subseteq> set s"
proof -
  have "set (strip s) \<subseteq> set (dropWhile isspace s)"
    unfolding strip_def using set_dropWhileD by fastforce
  also have "\<dots> \<subseteq> set s" using set_dropWhileD by fastforce
  finally show ?thesis .
qed

lemma remove_joiners_ascii: "list_all isascii s \<Longrightarrow> remove_joiners s = s"
  by (induction s) (auto simp: remove_joiners_def isascii_def ZWJ_def ZWNJ_def)

lemma fast_path_ascii:
  assumes "list_all isascii s"
  shows "transliterate_to_english s = strip s"
proof -
  from assms set_strip have a: "list_all isascii (strip s)"
    by (auto simp: list_all_iff)
  then have r: "remove_joiners (strip s) = strip s" by (rule remove_joiners_ascii)
  from a have "list_all (\<lambda>c. isascii c \<or> c \<in> set (ascii '' /-.'')) (strip s)"
    by (auto simp: list_all_iff)
  with r show ?thesis by (auto simp: transliterate_to_english_def Let_def strip_def)
qed

text \<open>
  Claim C8, as the code has it. An all-ASCII input (letters, space, hyphen, slash and
  period are ASCII) takes the fast path, which returns the text after \<^verbatim>\<open>strip()\<close>:
  the input with its leading and trailing whitespace removed, hence the input itself
  only when it has none. Transliterating the result again changes nothing.
\<close>

theorem ascii_fast_path_strip_idempotent:
  assumes "list_all isascii s"
  shows "transliterate_to_english s = strip s
    \<and> transliterate_to_english (transliterate_to_english s) = transliterate_to_english s"
proof -
  have 1: "transliterate_to_english s = strip s" using assms by (rule fast_path_ascii)
  from assms set_strip have "list_all isascii (strip s)" by (auto simp: list_all_iff)
  then have "transliterate_to_english (strip s) = strip (strip s)" by (rule fast_path_ascii)
  with 1 show ?thesis by (simp add: strip_idem)
qed

theorem ascii_fast_path_witness:
  "list_all isascii (ascii ''a b. '') \<and> transliterate_to_english (ascii ''a b. '') = ascii ''a b.''
   \<and> transliterate_to_english (transliterate_to_english (ascii ''a b. '')) = ascii ''a b.''"
proof -
  have h: "list_all isascii (ascii ''a b. '')"
    by (simp add: ascii_def isascii_def)
  have s: "strip (ascii ''a b. '') = ascii ''a b.''"
    by (simp add: ascii_def strip_def isspace_def)
  from ascii_fast_path_strip_idempotent [OF h] have
    "transliterate_to_english (ascii ''a b. '') = strip (ascii ''a b. '')"
    "transliterate_to_english (transliterate_to_english (ascii ''a b. ''))
       = transliterate_to_english (ascii ''a b. '')"
    by blast+
  with h s show ?thesis by simp
qed

text \<open>
  Claim C8 as stated fails: an ASCII input made of a space and a letter is not returned
  unchanged, the leading space is stripped.
\<close>

theorem ascii_input_not_returned_unchanged:
  "list_all isascii (ascii '' a'') \<and> transliterate_to_english (ascii '' a'') = ascii ''a''
   \<and> transliterate_to_english (ascii '' a'') \<noteq> ascii '' a''"
  by (simp add: transliterate_to_english_def ascii_def isascii_def strip_def isspace_def
      remove_joiners_def ZWJ_def ZWNJ_def)

lemma strip_eq: "transliterate_to_english s = transliterate_to_english (strip s)"
  by (cases "s = []") (auto simp: transliterate_to_english_def strip_idem, simp add: strip_def)

subsection \<open>What the character scan emits\<close>

lemma word_step_advance: "1 \<le> fst (word_step chars i)"
  by (simp add: word_step_def Let_def split: option.splits)

lemma table_values_lower:
  "list_all (\<lambda>(k, v). list_all is_lower v) SPECIALS"
  "list_all (\<lambda>(k, v). list_all is_lower v) VOWELS"
  "list_all (\<lambda>(k, v). list_all is_lower v) MATRAS"
  "list_all (\<lambda>(k, v). list_all is_lower v) CONSONANTS"
  "list_all (\<lambda>(k, v). list_all is_lower v) CONJUNCTS"
  by (simp_all add: translit_tables ascii_def is_lower_def)

lemma map_of_lower:
  assumes "list_all (\<lambda>(k, v). list_all is_lower v) t" and "map_of t k = Some v"
  shows "list_all is_lower v"
  using assms map_of_SomeD [OF assms(2)] by (auto simp: list_all_iff)

lemmas lookup_lower = table_values_lower [THEN map_of_lower]


lemma word_step_segments:
  assumes i: "i < length chars"
    and asc: "\<And>c. c \<in> set chars \<Longrightarrow> isascii c \<Longrightarrow> Q [c]"
    and low: "\<And>v. list_all is_lower v \<Longrightarrow> Q v"
  shows "list_all Q (snd (word_step chars i))"
proof -
  have a: "Q (ascii ''a'')" by (rule low) (simp add: ascii_def is_lower_def)
  from i have c: "chars ! i \<in> set chars" by simp
  have app: "Q (u @ v)" if "list_all is_lower u" "list_all is_lower v" for u v
    using that by (intro low) simp
  note defs = word_step_def Let_def
  show ?thesis
  proof (cases "\<not> is_malayalam (chars ! i) \<and> map_of SPECIALS (chars ! i) = None")
    case True
    then show ?thesis using asc [OF c] by (simp add: defs)
  next
    case nm: False
    show ?thesis
    proof (cases "map_of SPECIALS (chars ! i)")
      case (Some sv)
      with nm low [OF lookup_lower(1) [OF Some]] show ?thesis by (simp add: defs)
    next
      case s: None
      show ?thesis
      proof (cases "map_of VOWELS (chars ! i)")
        case (Some vv)
        with nm s low [OF lookup_lower(2) [OF Some]] show ?thesis by (simp add: defs)
      next
        case v: None
        show ?thesis
        proof (cases "map_of MATRAS (chars ! i)")
          case (Some mv)
          with nm s v low [OF lookup_lower(3) [OF Some]] show ?thesis by (simp add: defs)
        next
          case m: None
          show ?thesis
          proof (cases "map_of CONSONANTS (chars ! i)")
            case None
            with nm s v m show ?thesis by (simp add: defs)
          next
            case (Some cv)
            note lcv = lookup_lower(4) [OF Some]
            show ?thesis
            proof (cases "i + 2 < length chars \<and> chars ! (i + 1) = VIRAMA")
              case vir: True
              show ?thesis
              proof (cases "map_of CONJUNCTS [chars ! i, VIRAMA, chars ! (i + 2)]")
                case None
                with nm s v m Some vir low [OF lcv] show ?thesis by (simp add: defs)
              next
                case cj: (Some cj)
                note lcj = lookup_lower(5) [OF cj]
                show ?thesis
                proof (cases "if i + 3 < length chars then map_of MATRAS (chars ! (i + 3)) else None")
                  case None
                  with nm s v m Some vir cj low [OF lcj] a show ?thesis
                    by (cases "i + 3 < length chars") (simp_all add: defs)
                next
                  case mv: (Some mv)
                  then have "map_of MATRAS (chars ! (i + 3)) = Some mv"
                    by (simp split: if_splits)
                  then have "list_all is_lower mv" by (rule lookup_lower(3))
                  with nm s v m Some vir cj mv app [OF lcj] show ?thesis by (simp add: defs)
                qed
              qed
            next
              case vir: False
              show ?thesis
              proof (cases "if i + 1 < length chars then map_of MATRAS (chars ! (i + 1)) else None")
                case None
                with nm s v m Some vir low [OF lcv] a show ?thesis
                  by (cases "i + 1 < length chars") (auto simp add: defs)
              next
                case mv: (Some mv)
                then have "map_of MATRAS (chars ! (i + 1)) = Some mv"
                  by (simp split: if_splits)
                then have "list_all is_lower mv" by (rule lookup_lower(3))
                with nm s v m Some vir mv app [OF lcv] show ?thesis by (auto simp add: defs)
              qed
            qed
          qed
        qed
      qed
    qed
  qed
qed

lemma loop_segments:
  assumes asc: "\<And>c. c \<in> set chars \<Longrightarrow> isascii c \<Longrightarrow> Q [c]"
    and low: "\<And>v. list_all is_lower v \<Longrightarrow> Q v"
  shows "list_all Q result \<Longrightarrow> list_all Q (transliterate_word_loop chars i result)"
proof (induction "length chars - i" arbitrary: i result rule: less_induct)
  case less
  show ?case
  proof (cases "i < length chars")
    case True
    from True asc low have "list_all Q (snd (word_step chars i))"
      by (rule word_step_segments)
    with less.prems have "list_all Q (result @ snd (word_step chars i))" by simp
    moreover from True
    have "length chars - (i + max 1 (fst (word_step chars i))) < length chars - i" by simp
    ultimately have "list_all Q (transliterate_word_loop chars (i + max 1 (fst (word_step chars i)))
             (result @ snd (word_step chars i)))"
      by (intro less.hyps)
    with True show ?thesis by (subst transliterate_word_loop.simps) simp
  next
    case False
    with less.prems show ?thesis by (subst transliterate_word_loop.simps) simp
  qed
qed

lemma max_step: "max 1 (fst (word_step chars i)) = fst (word_step chars i)"
  using word_step_advance [of chars i] by simp

lemma letter_not_space: "is_lower c \<or> is_upper c \<Longrightarrow> \<not> isspace c"
  unfolding is_lower_def is_upper_def isspace_def by arith

lemma letter_cases:
  assumes "is_lower c \<or> is_upper c"
  shows "is_lower (to_lower c)" and "is_upper (to_upper c)"
  using assms unfolding is_lower_def is_upper_def to_lower_def to_upper_def by auto

lemma title_from_nospace:
  "list_all (\<lambda>c. \<not> isspace c) s \<Longrightarrow> list_all (\<lambda>c. \<not> isspace c) (title_from b s)"
proof (induction s arbitrary: b)
  case Nil
  then show ?case by simp
next
  case (Cons c s)
  then have tl: "list_all (\<lambda>c. \<not> isspace c) (title_from b' s)" for b' by simp
  show ?case
  proof (cases "is_lower c \<or> is_upper c")
    case True
    from letter_cases [OF True] have "\<not> isspace (to_lower c)" "\<not> isspace (to_upper c)"
      by (simp_all add: letter_not_space)
    with True tl show ?thesis by simp
  next
    case False
    with Cons.prems tl show ?thesis by simp
  qed
qed

lemma title_from_Nil: "title_from b s = [] \<longleftrightarrow> s = []"
  by (cases s) auto

lemma transliterate_word_nospace:
  assumes "list_all (\<lambda>c. \<not> isspace c) w"
  shows "list_all (\<lambda>c. \<not> isspace c) (transliterate_word w)"
proof -
  have "list_all (list_all (\<lambda>c. \<not> isspace c)) (transliterate_word_loop w 0 [])"
  proof (rule loop_segments)
    fix c assume "c \<in> set w"
    with assms show "list_all (\<lambda>c. \<not> isspace c) [c]" by (simp add: list_all_iff)
  next
    fix v assume "list_all is_lower v"
    then show "list_all (\<lambda>c. \<not> isspace c) v"
      by (auto simp: list_all_iff is_lower_def isspace_def)
  qed simp
  then have "list_all (\<lambda>c. \<not> isspace c) (concat (transliterate_word_loop w 0 []))"
    by (auto simp: list_all_iff)
  with assms show ?thesis
    by (simp add: transliterate_word_def Let_def title_def title_from_nospace)
qed

lemma transliterate_word_nonempty: "w \<noteq> [] \<Longrightarrow> transliterate_word w \<noteq> []"
  by (simp add: transliterate_word_def Let_def title_def title_from_Nil)

text \<open>The text handed to \<open>str.title()\<close> is ASCII.\<close>

lemma transliterate_word_loop_ascii:
  "list_all isascii (concat (transliterate_word_loop w 0 []))"
proof -
  have "list_all (list_all isascii) (transliterate_word_loop w 0 [])"
    by (rule loop_segments) (auto simp: list_all_iff is_lower_def isascii_def)
  then show ?thesis by (auto simp: list_all_iff)
qed

subsection \<open>Whitespace around the result\<close>

lemma known_names_values: "list_all (\<lambda>(k, v). tidy v) KNOWN_NAMES"
  by (simp add: KNOWN_NAMES_def tidy_def ascii_def isspace_def)

lemma find_Some_set: "find P xs = Some x \<Longrightarrow> x \<in> set xs"
  by (induction xs) (auto split: if_splits)

lemma known_name_tidy:
  assumes "known_name w = Some v"
  shows "tidy v"
proof -
  from assms obtain p where "p \<in> set KNOWN_NAMES" and "snd p = v"
    by (auto simp: known_name_def dest: find_Some_set)
  with known_names_values show ?thesis by (auto simp: list_all_iff)
qed

lemma split_from_tidy:
  "list_all (\<lambda>c. \<not> isspace c) cur \<Longrightarrow> list_all tidy (split_from cur s)"
  by (induction s arbitrary: cur) (auto simp: tidy_def)

lemma tidy_strip: "tidy w \<Longrightarrow> strip w = w"
  by (rule strip_fixed) (auto simp: tidy_def list_all_iff)

lemma result_words_tidy: "list_all tidy ws \<Longrightarrow> list_all tidy (result_words ws)"
proof (induction ws)
  case Nil
  then show ?case by simp
next
  case (Cons w ws)
  then have w: "tidy w" and ws: "list_all tidy (result_words ws)" by simp_all
  from w have "tidy (transliterate_word w)"
    by (simp add: tidy_def transliterate_word_nospace transliterate_word_nonempty)
  moreover from w have "strip w = w" "w \<noteq> []" by (simp_all add: tidy_strip) (simp add: tidy_def)
  ultimately show ?case using ws
    by (cases "known_name w") (auto simp: Let_def dest: known_name_tidy)
qed

lemma join_tidy:
  "list_all tidy ws \<Longrightarrow> join sep ws = [] \<or>
     (\<not> isspace (hd (join sep ws)) \<and> \<not> isspace (last (join sep ws)))"
proof (induction sep ws rule: join.induct)
  case (1 sep)
  then show ?case by simp
next
  case (2 sep x)
  then show ?case by (auto simp: tidy_def list_all_iff)
next
  case (3 sep x y ys)
  then have x: "x \<noteq> []" "\<not> isspace (hd x)" and j: "join sep (y # ys) \<noteq> []"
    and IH: "\<not> isspace (last (join sep (y # ys)))"
    by (auto simp: tidy_def list_all_iff) (cases ys; simp)+
  then show ?case by simp
qed

lemma remove_joiners_id: "ZWJ \<notin> set t \<Longrightarrow> ZWNJ \<notin> set t \<Longrightarrow> remove_joiners t = t"
  by (induction t) (auto simp: remove_joiners_def)

lemma fast_check_iff:
  "list_all (\<lambda>c. isascii c \<or> c \<in> set (ascii '' /-.'')) t = list_all isascii t"
  by (induction t) (auto simp: ascii_def isascii_def)

text \<open>
  The word-by-word path always returns a text without whitespace at its ends; the ASCII
  fast path returns the text as it is after the joiners are removed. So the result is
  free of leading and trailing whitespace exactly when, on the fast path, removing the
  joiners left none at the ends.
\<close>

lemma word_path_clean:
  assumes "\<not> list_all isascii (remove_joiners (strip s))"
  shows "strip (transliterate_to_english s) = transliterate_to_english s"
proof -
  have "strip s \<noteq> []"
  proof
    assume "strip s = []"
    then have "remove_joiners (strip s) = []" by (simp add: remove_joiners_def)
    with assms show False by simp
  qed
  moreover from this have "s \<noteq> []" by (auto simp: strip_def)
  ultimately have ne: "s \<noteq> []" "strip s \<noteq> []" by simp_all
  with assms have "transliterate_to_english s =
      join (ascii '' '') (result_words (split_ws (remove_joiners (strip s))))"
    by (simp add: transliterate_to_english_def fast_check_iff)
  moreover have "list_all tidy (result_words (split_ws (remove_joiners (strip s))))"
    unfolding split_ws_def by (intro result_words_tidy split_from_tidy) simp
  ultimately show ?thesis using join_tidy by (intro strip_fixed) simp
qed

lemma fast_path_result:
  assumes "list_all isascii (remove_joiners (strip s))"
  shows "transliterate_to_english s = remove_joiners (strip s)"
proof (cases "s = [] \<or> strip s = []")
  case True
  then have "strip s = []" by (auto simp: strip_def)
  then show ?thesis by (simp add: transliterate_to_english_def remove_joiners_def)
next
  case False
  with assms show ?thesis by (simp add: transliterate_to_english_def fast_check_iff)
qed

lemma clean_ends_iff:
  "strip (transliterate_to_english s) = transliterate_to_english s \<longleftrightarrow>
     (list_all isascii (remove_joiners (strip s)) \<longrightarrow>
        strip (remove_joiners (strip s)) = remove_joiners (strip s))"
  using word_path_clean [of s] fast_path_result [of s] by (cases "list_all isascii (remove_joiners (strip s))") simp_all

text \<open>
  Claim C10. Transliterating a text and transliterating its stripped form give the same
  result (\<open>strip_eq\<close>), and the claim has the result free of leading and trailing
  whitespace. The text is stripped before the joiners are removed, and the ASCII fast
  path returns it without stripping again: ZWJ, space, \<open>a\<close> is returned as space,
  \<open>a\<close>. The word-by-word path does return clean ends on such inputs
  (\<open>word_path_clean\<close>).
\<close>

theorem joiner_exposes_leading_space:
  "transliterate_to_english ([0x200D] @ ascii '' a'') = ascii '' a''
   \<and> isspace (hd (transliterate_to_english ([0x200D] @ ascii '' a'')))
   \<and> strip (transliterate_to_english ([0x200D] @ ascii '' a''))
       \<noteq> transliterate_to_english ([0x200D] @ ascii '' a'')"
  by (simp add: transliterate_to_english_def ascii_def isascii_def strip_def isspace_def
      remove_joiners_def ZWJ_def ZWNJ_def)

end
